theory Spec2Isabelle
  imports Main "HOL-Library.Sublist" "HOL-Library.Word"
begin

section \<open>downloadutils: retrieving a URL, with a fall back to curl or wget\<close>

text \<open>
  The module \<^verbatim>\<open>ciao_contrib/downloadutils.py\<close> has two functions,
  \<^verbatim>\<open>manual_download(url)\<close> and \<^verbatim>\<open>retrieve_url(url, timeout=None)\<close>. Both talk to the
  outside world only through \<^verbatim>\<open>urllib.request.urlopen\<close>, \<^verbatim>\<open>subprocess.check_output\<close>
  and the module logger (\<^verbatim>\<open>v3\<close>, \<^verbatim>\<open>v4\<close>). The embedding takes the outside world as an
  environment (what \<^verbatim>\<open>urlopen\<close> and \<^verbatim>\<open>check_output\<close> answer), threads a trace of the
  calls made and of the log lines written, and returns a raised exception as \<open>Inl\<close>.
\<close>

subsection \<open>Values\<close>

type_synonym bytes = "8 word list"

text \<open>
  The \<^verbatim>\<open>reason\<close> attribute of a \<^verbatim>\<open>URLError\<close> is a string or an object (an \<^verbatim>\<open>ssl.SSLError\<close>, a
  \<^verbatim>\<open>socket.gaierror\<close>, ...); an object is given by its class name and by what \<^verbatim>\<open>str\<close>
  makes of it.
\<close>

datatype reason = Reason_str string | Reason_obj string string

fun str_reason :: "reason \<Rightarrow> string" where
  "str_reason (Reason_str s) = s"
| "str_reason (Reason_obj cls s) = s"

text \<open>
  Exceptions, as values. An exception is identified with its class and its arguments; the
  traceback and the implicit \<^verbatim>\<open>__context__\<close> link that Python sets on an exception raised
  inside a handler are not part of the value. \<^verbatim>\<open>HTTPError\<close> is the subclass of \<^verbatim>\<open>URLError\<close>
  that \<^verbatim>\<open>urlopen\<close> raises for an HTTP error status (code and message; its \<^verbatim>\<open>reason\<close> is the
  message). \<open>OtherError\<close> stands for every class that derives neither from \<^verbatim>\<open>URLError\<close>
  nor from \<^verbatim>\<open>FileNotFoundError\<close>, with its class name and message.
\<close>

datatype exn =
    URLError reason
  | HTTPError nat string
  | FileNotFoundError string
  | CalledProcessError int "string list"
  | RuntimeError string
  | ValueError string
  | OtherError string string

text \<open>
  \<^verbatim>\<open>except urllib.error.URLError as ue\<close> matches the instances of \<^verbatim>\<open>URLError\<close>, subclasses
  included; \<open>URLError_reason\<close> is \<^verbatim>\<open>ue.reason\<close> for those and \<open>None\<close> for an exception
  the clause does not catch.
\<close>

fun URLError_reason :: "exn \<Rightarrow> reason option" where
  "URLError_reason (URLError r) = Some r"
| "URLError_reason (HTTPError code msg) = Some (Reason_str msg)"
| "URLError_reason _ = None"

text \<open>\<^verbatim>\<open>except FileNotFoundError\<close>.\<close>

fun is_FileNotFoundError :: "exn \<Rightarrow> bool" where
  "is_FileNotFoundError (FileNotFoundError _) = True"
| "is_FileNotFoundError _ = False"

text \<open>
  What the functions return: \<^verbatim>\<open>urlopen\<close>'s own object (an \<^verbatim>\<open>http.client.HTTPResponse\<close> or
  \<^verbatim>\<open>urllib.response.addinfourl\<close>: a file-like object over the open connection, here the
  connection's handle, whose payload is transferred by later \<^verbatim>\<open>read\<close> calls), or an
  \<^verbatim>\<open>io.BytesIO\<close> holding the bytes it was built from.
\<close>

datatype response = HTTPResponse nat | BytesIO bytes

fun is_BytesIO :: "response \<Rightarrow> bool" where
  "is_BytesIO (BytesIO _) = True"
| "is_BytesIO (HTTPResponse _) = False"

subsection \<open>The environment and the trace\<close>

text \<open>
  \<open>urlopen env url None\<close> is the call \<^verbatim>\<open>urlopen(url)\<close>, \<open>urlopen env url (Some t)\<close> the call
  \<^verbatim>\<open>urlopen(url, timeout=t)\<close>; \<open>check_output env args\<close> is \<^verbatim>\<open>check_output(args)\<close>, which
  returns the program's standard output, raises \<^verbatim>\<open>FileNotFoundError\<close> when starting it
  fails for want of a file (no such program, or one whose interpreter is absent) and
  \<^verbatim>\<open>CalledProcessError\<close> when it exits with a non-zero status. No run of the
  module repeats a call, so a function of the arguments is enough.
\<close>

record 't env =
  urlopen :: "string \<Rightarrow> 't option \<Rightarrow> exn + nat"
  check_output :: "string list \<Rightarrow> exn + bytes"

text \<open>
  A log line is kept as its format string and the arguments of \<^verbatim>\<open>format\<close>, unformatted.
\<close>

datatype 't fmt_arg =
    A_str string
  | A_timeout "'t option"
  | A_exn exn
  | A_reason reason
  | A_args "string list"

datatype 't event =
    V3 string "'t fmt_arg list"
  | V4 string "'t fmt_arg list"
  | Urlopen string "'t option"
  | Check_output "string list"

definition v3 :: "string \<Rightarrow> 't fmt_arg list \<Rightarrow> 't event list \<Rightarrow> 't event list" where
  "v3 fmt as tr = tr @ [V3 fmt as]"

definition v4 :: "string \<Rightarrow> 't fmt_arg list \<Rightarrow> 't event list \<Rightarrow> 't event list" where
  "v4 fmt as tr = tr @ [V4 fmt as]"

definition call_check_output ::
  "'t env \<Rightarrow> string list \<Rightarrow> 't event list \<Rightarrow> (exn + bytes) \<times> 't event list" where
  "call_check_output env args tr = (check_output env args, tr @ [Check_output args])"

definition call_urlopen ::
  "'t env \<Rightarrow> string \<Rightarrow> 't option \<Rightarrow> 't event list \<Rightarrow> (exn + nat) \<times> 't event list" where
  "call_urlopen env url timeout tr = (urlopen env url timeout, tr @ [Urlopen url timeout])"

subsection \<open>\<^verbatim>\<open>str.find\<close>\<close>

text \<open>
  \<^verbatim>\<open>s.find(sub)\<close>: the lowest index at which \<open>sub\<close> occurs in \<open>s\<close>, or \<open>-1\<close>. The index
  counts \<open>char\<close>s, which are bytes; the module only compares the result with \<open>-1\<close>, and
  both needles are ASCII.
\<close>

fun find_from :: "string \<Rightarrow> string \<Rightarrow> int \<Rightarrow> int" where
  "find_from [] sub i = (if sub = [] then i else - 1)"
| "find_from (c # cs) sub i =
     (if prefix sub (c # cs) then i else find_from cs sub (i + 1))"

definition str_find :: "string \<Rightarrow> string \<Rightarrow> int" where
  "str_find s sub = find_from s sub 0"

subsection \<open>\<^verbatim>\<open>manual_download\<close>\<close>

definition emsg :: "string \<Rightarrow> string" where
  "emsg url =
     (''Unable to access the URL '' @ url @ ''.'' @ [CHR 0x0A]) @
     ''Please install curl or wget (and if you '' @
     ''continue to see this message, contact the '' @
     ''CXC HelpDesk).''"

definition manual_download ::
  "'t env \<Rightarrow> string \<Rightarrow> 't event list \<Rightarrow> (exn + response) \<times> 't event list" where
  "manual_download env url tr0 =
     (let tr1 = v3 ''Fall back to curl or wget to download: {}'' [A_str url] tr0;
          args = [''curl'', ''--silent'', ''-L'', url];
          tr2 = v4 ''About to execute: {}'' [A_args args] tr1
      in case call_check_output env args tr2 of
           (Inr rsp, tr3) \<Rightarrow> (Inr (BytesIO rsp), tr3)
         | (Inl exc1, tr3) \<Rightarrow>
             if is_FileNotFoundError exc1 then
               (let tr4 = v3 ''Unable to call curl: {}'' [A_exn exc1] tr3;
                    args = [''wget'', ''--quiet'', ''-O-'', url];
                    tr5 = v4 ''About to execute: {}'' [A_args args] tr4
                in case call_check_output env args tr5 of
                     (Inr rsp, tr6) \<Rightarrow> (Inr (BytesIO rsp), tr6)
                   | (Inl exc2, tr6) \<Rightarrow>
                       if is_FileNotFoundError exc2 then
                         (let tr7 = v3 ''Unable to call wget: {}'' [A_exn exc2] tr6
                          in (Inl (RuntimeError (emsg url)), tr7))
                       else (Inl exc2, tr6))
             else (Inl exc1, tr3))"

subsection \<open>\<^verbatim>\<open>retrieve_url\<close>\<close>

text \<open>
  An exception that \<^verbatim>\<open>manual_download\<close> raises inside the handler leaves \<^verbatim>\<open>retrieve_url\<close>: the
  \<^verbatim>\<open>except\<close> clause guards the \<^verbatim>\<open>try\<close> body only. The bare \<^verbatim>\<open>raise\<close> raises \<open>ue\<close> again.
\<close>

definition retrieve_url ::
  "'t env \<Rightarrow> string \<Rightarrow> 't option \<Rightarrow> 't event list \<Rightarrow> (exn + response) \<times> 't event list" where
  "retrieve_url env url timeout tr0 =
     (let tr1 = v3 ''Retrieving URL: {} timeout={}'' [A_str url, A_timeout timeout] tr0
      in case (case timeout of
                 None \<Rightarrow> call_urlopen env url None tr1
               | Some t \<Rightarrow> call_urlopen env url (Some t) tr1) of
           (Inr h, tr2) \<Rightarrow> (Inr (HTTPResponse h), tr2)
         | (Inl ue, tr2) \<Rightarrow>
             (case URLError_reason ue of
                None \<Rightarrow> (Inl ue, tr2)
              | Some r \<Rightarrow>
                  (let tr3 = v3 ''Error opening URL: {}'' [A_exn ue] tr2;
                       tr4 = v3 ''error.reason = {}'' [A_reason r] tr3;
                       reason = str_reason r
                   in if str_find reason ''unknown url type: https'' \<noteq> - 1 \<or>
                         str_find reason ''CERTIFICATE_VERIFY_FAILED'' \<noteq> - 1
                      then manual_download env url tr4
                      else (Inl ue, tr4))))"


subsection \<open>Reading a trace\<close>

fun is_Urlopen :: "'t event \<Rightarrow> bool" where
  "is_Urlopen (Urlopen _ _) = True"
| "is_Urlopen _ = False"

fun is_Check_output :: "'t event \<Rightarrow> bool" where
  "is_Check_output (Check_output _) = True"
| "is_Check_output _ = False"

text \<open>
  The events \<^verbatim>\<open>retrieve_url\<close> adds before it looks at the reason of a \<^verbatim>\<open>URLError\<close>.
\<close>

definition handler_events :: "string \<Rightarrow> 't option \<Rightarrow> exn \<Rightarrow> reason \<Rightarrow> 't event list" where
  "handler_events url timeout ue r =
     [V3 ''Retrieving URL: {} timeout={}'' [A_str url, A_timeout timeout],
      Urlopen url timeout,
      V3 ''Error opening URL: {}'' [A_exn ue],
      V3 ''error.reason = {}'' [A_reason r]]"

text \<open>Two strings that differ at most in the case of their ASCII letters.\<close>

definition ascii_lower :: "char \<Rightarrow> char" where
  "ascii_lower c =
     (let n = (of_char c :: nat) in if 65 \<le> n \<and> n \<le> 90 then char_of (n + 32) else c)"

definition eq_ignoring_case :: "string \<Rightarrow> string \<Rightarrow> bool" where
  "eq_ignoring_case s t = (map ascii_lower s = map ascii_lower t)"

text \<open>
  A concrete outside world: \<^verbatim>\<open>urlopen\<close> answers \<open>u\<close>, \<^verbatim>\<open>curl\<close> answers \<open>c\<close> and every other
  program \<open>w\<close>.
\<close>

definition world :: "exn + nat \<Rightarrow> exn + bytes \<Rightarrow> exn + bytes \<Rightarrow> nat env" where
  "world u c w =
     \<lparr>urlopen = (\<lambda>url timeout. u),
      check_output = (\<lambda>args. case args of [] \<Rightarrow> w | p # _ \<Rightarrow> if p = ''curl'' then c else w)\<rparr>"

section \<open>Properties\<close>

subsection \<open>\<^verbatim>\<open>str.find\<close> finds exactly the substrings\<close>

lemma find_from_sublist: "0 \<le> i \<Longrightarrow> find_from s sub i \<noteq> - 1 \<longleftrightarrow> sublist sub s"
proof (induction s arbitrary: i)
  case Nil
  then show ?case by auto
next
  case (Cons c cs)
  then show ?case by (simp add: sublist_Cons_right)
qed

lemma str_find_sublist: "str_find s sub \<noteq> - 1 \<longleftrightarrow> sublist sub s"
  by (simp add: str_find_def find_from_sublist)


lemmas run_defs =
  retrieve_url_def manual_download_def v3_def v4_def call_urlopen_def call_check_output_def

lemma manual_download_trace:
  "manual_download env url tr =
     (fst (manual_download env url []), tr @ snd (manual_download env url []))"
  by (simp add: run_defs Let_def split: sum.splits)

lemma manual_download_BytesIO:
  "fst (manual_download env url tr) = Inr rsp \<Longrightarrow> is_BytesIO rsp"
  by (auto simp: run_defs Let_def split: sum.splits if_splits)

lemma manual_download_no_Urlopen:
  "filter is_Urlopen (snd (manual_download env url tr)) = filter is_Urlopen tr"
  by (simp add: run_defs Let_def split: sum.splits)

lemma handler_takes_fallback:
  assumes "urlopen env url timeout = Inl ue"
    and "URLError_reason ue = Some r"
    and "sublist ''unknown url type: https'' (str_reason r) \<or>
         sublist ''CERTIFICATE_VERIFY_FAILED'' (str_reason r)"
  shows "retrieve_url env url timeout tr =
           manual_download env url (tr @ handler_events url timeout ue r)"
  using assms
  by (cases timeout) (simp_all add: retrieve_url_def v3_def call_urlopen_def Let_def
        str_find_sublist handler_events_def)

lemma handler_raises_again:
  assumes "urlopen env url timeout = Inl ue"
    and "URLError_reason ue = Some r"
    and "\<not> sublist ''unknown url type: https'' (str_reason r)"
    and "\<not> sublist ''CERTIFICATE_VERIFY_FAILED'' (str_reason r)"
  shows "retrieve_url env url timeout tr = (Inl ue, tr @ handler_events url timeout ue r)"
  using assms
  by (cases timeout) (simp_all add: retrieve_url_def v3_def call_urlopen_def Let_def
        str_find_sublist handler_events_def)


lemma exception_not_caught:
  assumes "urlopen env url timeout = Inl e" and "URLError_reason e = None"
  shows "retrieve_url env url timeout tr =
           (Inl e, tr @ [V3 ''Retrieving URL: {} timeout={}'' [A_str url, A_timeout timeout],
                         Urlopen url timeout])"
  using assms
  by (cases timeout) (simp_all add: retrieve_url_def v3_def call_urlopen_def Let_def)

lemma manual_download_raises:
  "fst (manual_download env url tr) = Inl e \<Longrightarrow>
     e = RuntimeError (emsg url) \<or> (\<exists>args. check_output env args = Inl e)"
  by (auto simp: run_defs Let_def split: sum.splits if_splits)

subsection \<open>The fall back to the external programs\<close>

text \<open>
  C1. When \<^verbatim>\<open>urlopen\<close> raises a \<^verbatim>\<open>URLError\<close> whose reason text contains
  \<^verbatim>\<open>unknown url type: https\<close> or \<^verbatim>\<open>CERTIFICATE_VERIFY_FAILED\<close>, \<^verbatim>\<open>retrieve_url\<close> does what
  \<^verbatim>\<open>manual_download\<close> does with the same url, from the trace the handler has left, and
  returns its result; the \<^verbatim>\<open>URLError\<close> is not raised (unless an external program itself
  were to raise that very exception).
\<close>

theorem retrieve_url_falls_back:
  assumes "urlopen env url timeout = Inl ue"
    and "URLError_reason ue = Some r"
    and "sublist ''unknown url type: https'' (str_reason r) \<or>
         sublist ''CERTIFICATE_VERIFY_FAILED'' (str_reason r)"
  shows "retrieve_url env url timeout tr =
           manual_download env url (tr @ handler_events url timeout ue r) \<and>
         ((\<forall>args. check_output env args \<noteq> Inl ue) \<longrightarrow>
            fst (retrieve_url env url timeout tr) \<noteq> Inl ue)"
proof -
  let ?tr = "tr @ handler_events url timeout ue r"
  have run: "retrieve_url env url timeout tr = manual_download env url ?tr"
    using assms by (rule handler_takes_fallback)
  have "ue \<noteq> RuntimeError (emsg url)"
    using assms(2) by auto
  then have "fst (manual_download env url ?tr) \<noteq> Inl ue"
    if "\<forall>args. check_output env args \<noteq> Inl ue"
    using that manual_download_raises [of env url ?tr ue] by blast
  with run show ?thesis by simp
qed

theorem retrieve_url_falls_back_witness:
  "retrieve_url
     (world (Inl (URLError (Reason_str ''unknown url type: https''))) (Inr [104, 105])
        (Inl (FileNotFoundError ''wget'')))
     ''https://cxc.harvard.edu/'' (Some 10) [] =
   (Inr (BytesIO [104, 105]),
    [V3 ''Retrieving URL: {} timeout={}'' [A_str ''https://cxc.harvard.edu/'', A_timeout (Some 10)],
     Urlopen ''https://cxc.harvard.edu/'' (Some 10),
     V3 ''Error opening URL: {}'' [A_exn (URLError (Reason_str ''unknown url type: https''))],
     V3 ''error.reason = {}'' [A_reason (Reason_str ''unknown url type: https'')],
     V3 ''Fall back to curl or wget to download: {}'' [A_str ''https://cxc.harvard.edu/''],
     V4 ''About to execute: {}'' [A_args [''curl'', ''--silent'', ''-L'', ''https://cxc.harvard.edu/'']],
     Check_output [''curl'', ''--silent'', ''-L'', ''https://cxc.harvard.edu/'']])"
proof -
  let ?ue = "URLError (Reason_str ''unknown url type: https'')"
  let ?env = "world (Inl ?ue) (Inr [104, 105]) (Inl (FileNotFoundError ''wget''))"
  have h1: "urlopen ?env ''https://cxc.harvard.edu/'' (Some 10) = Inl ?ue"
    by (simp add: world_def)
  have h2: "URLError_reason ?ue = Some (Reason_str ''unknown url type: https'')"
    by simp
  have h3: "sublist ''unknown url type: https'' (str_reason (Reason_str ''unknown url type: https'')) \<or>
            sublist ''CERTIFICATE_VERIFY_FAILED'' (str_reason (Reason_str ''unknown url type: https''))"
    by simp
  show ?thesis
    using retrieve_url_falls_back [OF h1 h2 h3, of "[]"]
    by (simp add: manual_download_def v3_def v4_def call_check_output_def handler_events_def
          world_def Let_def)
qed

text \<open>
  C2. When \<^verbatim>\<open>urlopen\<close> raises a \<^verbatim>\<open>URLError\<close> whose reason text contains neither string,
  \<^verbatim>\<open>retrieve_url\<close> raises that same exception after logging it, and no external program
  is run.
\<close>

theorem retrieve_url_reraises:
  assumes "urlopen env url timeout = Inl ue"
    and "URLError_reason ue = Some r"
    and "\<not> sublist ''unknown url type: https'' (str_reason r)"
    and "\<not> sublist ''CERTIFICATE_VERIFY_FAILED'' (str_reason r)"
  shows "retrieve_url env url timeout tr =
           (Inl ue,
            tr @ [V3 ''Retrieving URL: {} timeout={}'' [A_str url, A_timeout timeout],
                  Urlopen url timeout,
                  V3 ''Error opening URL: {}'' [A_exn ue],
                  V3 ''error.reason = {}'' [A_reason r]]) \<and>
         filter is_Check_output (snd (retrieve_url env url timeout tr)) =
           filter is_Check_output tr"
  using handler_raises_again [OF assms, of tr] by (simp add: handler_events_def)

theorem retrieve_url_reraises_witness:
  "retrieve_url
     (world (Inl (URLError (Reason_str ''Connection refused''))) (Inr [104, 105]) (Inr [104, 105]))
     ''http://cxc.harvard.edu/'' None [] =
   (Inl (URLError (Reason_str ''Connection refused'')),
    [V3 ''Retrieving URL: {} timeout={}'' [A_str ''http://cxc.harvard.edu/'', A_timeout None],
     Urlopen ''http://cxc.harvard.edu/'' None,
     V3 ''Error opening URL: {}'' [A_exn (URLError (Reason_str ''Connection refused''))],
     V3 ''error.reason = {}'' [A_reason (Reason_str ''Connection refused'')]])"
proof -
  let ?ue = "URLError (Reason_str ''Connection refused'')"
  let ?env = "world (Inl ?ue) (Inr [104, 105]) (Inr [104, 105])"
  have h1: "urlopen ?env ''http://cxc.harvard.edu/'' None = Inl ?ue"
    by (simp add: world_def)
  have h2: "URLError_reason ?ue = Some (Reason_str ''Connection refused'')"
    by simp
  have h3: "\<not> sublist ''unknown url type: https'' (str_reason (Reason_str ''Connection refused''))"
    by (simp add: sublist_code prefix_code)
  have h4: "\<not> sublist ''CERTIFICATE_VERIFY_FAILED'' (str_reason (Reason_str ''Connection refused''))"
    by (simp add: sublist_code prefix_code)
  show ?thesis
    using retrieve_url_reraises [OF h1 h2 h3 h4, of "[]"] by simp
qed


subsection \<open>\<^verbatim>\<open>manual_download\<close>: curl, then wget\<close>

text \<open>
  C3. When running \<^verbatim>\<open>curl\<close> raises \<^verbatim>\<open>FileNotFoundError\<close>, \<^verbatim>\<open>manual_download\<close> runs
  \<^verbatim>\<open>wget --quiet -O- url\<close> with the same url, and when that succeeds it returns a
  \<^verbatim>\<open>BytesIO\<close> of the standard output \<^verbatim>\<open>wget\<close> produced.
\<close>

theorem manual_download_wget_after_curl_missing:
  assumes "check_output env [''curl'', ''--silent'', ''-L'', url] = Inl exc1"
    and "is_FileNotFoundError exc1"
    and "check_output env [''wget'', ''--quiet'', ''-O-'', url] = Inr out"
  shows "manual_download env url tr =
           (Inr (BytesIO out),
            tr @ [V3 ''Fall back to curl or wget to download: {}'' [A_str url],
                  V4 ''About to execute: {}'' [A_args [''curl'', ''--silent'', ''-L'', url]],
                  Check_output [''curl'', ''--silent'', ''-L'', url],
                  V3 ''Unable to call curl: {}'' [A_exn exc1],
                  V4 ''About to execute: {}'' [A_args [''wget'', ''--quiet'', ''-O-'', url]],
                  Check_output [''wget'', ''--quiet'', ''-O-'', url]])"
  using assms by (simp add: run_defs Let_def)

theorem manual_download_wget_after_curl_missing_witness:
  "manual_download
     (world (Inr 7) (Inl (FileNotFoundError ''curl'')) (Inr [111, 107]))
     ''https://cxc.harvard.edu/'' [] =
   (Inr (BytesIO [111, 107]),
    [V3 ''Fall back to curl or wget to download: {}'' [A_str ''https://cxc.harvard.edu/''],
     V4 ''About to execute: {}'' [A_args [''curl'', ''--silent'', ''-L'', ''https://cxc.harvard.edu/'']],
     Check_output [''curl'', ''--silent'', ''-L'', ''https://cxc.harvard.edu/''],
     V3 ''Unable to call curl: {}'' [A_exn (FileNotFoundError ''curl'')],
     V4 ''About to execute: {}'' [A_args [''wget'', ''--quiet'', ''-O-'', ''https://cxc.harvard.edu/'']],
     Check_output [''wget'', ''--quiet'', ''-O-'', ''https://cxc.harvard.edu/'']])"
proof -
  let ?env = "world (Inr 7) (Inl (FileNotFoundError ''curl'')) (Inr [111, 107])"
  have h1: "check_output ?env [''curl'', ''--silent'', ''-L'', ''https://cxc.harvard.edu/''] =
              Inl (FileNotFoundError ''curl'')"
    by (simp add: world_def)
  have h2: "is_FileNotFoundError (FileNotFoundError ''curl'')"
    by simp
  have h3: "check_output ?env [''wget'', ''--quiet'', ''-O-'', ''https://cxc.harvard.edu/''] =
              Inr [111, 107]"
    by (simp add: world_def)
  show ?thesis
    using manual_download_wget_after_curl_missing [OF h1 h2 h3, of "[]"] by simp
qed

text \<open>
  C4. When running \<^verbatim>\<open>curl\<close> and then \<^verbatim>\<open>wget\<close> both raise \<^verbatim>\<open>FileNotFoundError\<close>,
  \<^verbatim>\<open>manual_download\<close> raises one \<^verbatim>\<open>RuntimeError\<close>; its message names \<^verbatim>\<open>curl\<close> and \<^verbatim>\<open>wget\<close> and
  asks to install one of them, and the exception raised is neither of the two
  \<^verbatim>\<open>FileNotFoundError\<close>s.
\<close>

theorem manual_download_no_program:
  assumes "check_output env [''curl'', ''--silent'', ''-L'', url] = Inl exc1"
    and "is_FileNotFoundError exc1"
    and "check_output env [''wget'', ''--quiet'', ''-O-'', url] = Inl exc2"
    and "is_FileNotFoundError exc2"
  shows "fst (manual_download env url tr) = Inl (RuntimeError (emsg url)) \<and>
         sublist ''curl'' (emsg url) \<and>
         sublist ''wget'' (emsg url) \<and>
         sublist ''Please install curl or wget'' (emsg url) \<and>
         fst (manual_download env url tr) \<noteq> Inl exc1 \<and>
         fst (manual_download env url tr) \<noteq> Inl exc2"
proof -
  have run: "fst (manual_download env url tr) = Inl (RuntimeError (emsg url))"
    using assms by (simp add: run_defs Let_def)
  have msg: "emsg url =
      (''Unable to access the URL '' @ url @ ''.'' @ [CHR 0x0A]) @
      ''Please install curl or wget'' @ '' (and if you continue to see this message, contact the CXC HelpDesk).''"
    by (simp add: emsg_def)
  have install: "sublist ''Please install curl or wget'' (emsg url)"
    unfolding msg by (rule sublist_appendI)
  have "sublist ''curl'' ''Please install curl or wget''"
    using sublist_appendI [of "''curl''" "''Please install ''" "'' or wget''"] by simp
  then have curl: "sublist ''curl'' (emsg url)"
    using install sublist_order.order_trans by blast
  have "sublist ''wget'' ''Please install curl or wget''"
    using sublist_append_leftI [of "''wget''" "''Please install curl or ''"] by simp
  then have wget: "sublist ''wget'' (emsg url)"
    using install sublist_order.order_trans by blast
  have "exc1 \<noteq> RuntimeError (emsg url)" "exc2 \<noteq> RuntimeError (emsg url)"
    using assms(2,4) by auto
  with run install curl wget show ?thesis by simp
qed

theorem manual_download_no_program_witness:
  "fst (manual_download
          (world (Inr 7) (Inl (FileNotFoundError ''curl'')) (Inl (FileNotFoundError ''wget'')))
          ''https://cxc.harvard.edu/'' []) =
     Inl (RuntimeError
       (''Unable to access the URL https://cxc.harvard.edu/.'' @ [CHR 0x0A] @
        ''Please install curl or wget (and if you continue to see this message, contact the CXC HelpDesk).''))"
proof -
  let ?env = "world (Inr 7) (Inl (FileNotFoundError ''curl'')) (Inl (FileNotFoundError ''wget''))"
  have h1: "check_output ?env [''curl'', ''--silent'', ''-L'', ''https://cxc.harvard.edu/''] =
              Inl (FileNotFoundError ''curl'')"
    by (simp add: world_def)
  have h2: "is_FileNotFoundError (FileNotFoundError ''curl'')"
    by simp
  have h3: "check_output ?env [''wget'', ''--quiet'', ''-O-'', ''https://cxc.harvard.edu/''] =
              Inl (FileNotFoundError ''wget'')"
    by (simp add: world_def)
  have h4: "is_FileNotFoundError (FileNotFoundError ''wget'')"
    by simp
  show ?thesis
    using manual_download_no_program [OF h1 h2 h3 h4, of "[]"] by (simp add: emsg_def)
qed

text \<open>
  C5, as amended. The handlers of \<^verbatim>\<open>manual_download\<close> tell failures apart by the class of
  the exception alone. When running an external program raises anything but
  \<^verbatim>\<open>FileNotFoundError\<close> (a \<^verbatim>\<open>CalledProcessError\<close> for a non-zero exit status, say),
  \<^verbatim>\<open>manual_download\<close> raises that exception as it is and runs nothing after it: a failing
  \<^verbatim>\<open>curl\<close> is not followed by \<^verbatim>\<open>wget\<close>, and a failing \<^verbatim>\<open>wget\<close> is not turned into the
  \<^verbatim>\<open>RuntimeError\<close>. A \<^verbatim>\<open>FileNotFoundError\<close> is always handled as a missing program.
\<close>

theorem manual_download_propagates_failure:
  "(check_output env [''curl'', ''--silent'', ''-L'', url] = Inl e \<and> \<not> is_FileNotFoundError e \<longrightarrow>
      manual_download env url tr =
        (Inl e,
         tr @ [V3 ''Fall back to curl or wget to download: {}'' [A_str url],
               V4 ''About to execute: {}'' [A_args [''curl'', ''--silent'', ''-L'', url]],
               Check_output [''curl'', ''--silent'', ''-L'', url]])) \<and>
   (check_output env [''curl'', ''--silent'', ''-L'', url] = Inl exc1 \<and> is_FileNotFoundError exc1 \<and>
    check_output env [''wget'', ''--quiet'', ''-O-'', url] = Inl e \<and> \<not> is_FileNotFoundError e \<longrightarrow>
      manual_download env url tr =
        (Inl e,
         tr @ [V3 ''Fall back to curl or wget to download: {}'' [A_str url],
               V4 ''About to execute: {}'' [A_args [''curl'', ''--silent'', ''-L'', url]],
               Check_output [''curl'', ''--silent'', ''-L'', url],
               V3 ''Unable to call curl: {}'' [A_exn exc1],
               V4 ''About to execute: {}'' [A_args [''wget'', ''--quiet'', ''-O-'', url]],
               Check_output [''wget'', ''--quiet'', ''-O-'', url]]))"
  by (simp add: run_defs Let_def)

theorem manual_download_propagates_failure_witness:
  "manual_download
     (world (Inr 7)
        (Inl (CalledProcessError 6 [''curl'', ''--silent'', ''-L'', ''https://cxc.harvard.edu/'']))
        (Inr [111, 107]))
     ''https://cxc.harvard.edu/'' [] =
   (Inl (CalledProcessError 6 [''curl'', ''--silent'', ''-L'', ''https://cxc.harvard.edu/'']),
    [V3 ''Fall back to curl or wget to download: {}'' [A_str ''https://cxc.harvard.edu/''],
     V4 ''About to execute: {}'' [A_args [''curl'', ''--silent'', ''-L'', ''https://cxc.harvard.edu/'']],
     Check_output [''curl'', ''--silent'', ''-L'', ''https://cxc.harvard.edu/'']]) \<and>
   manual_download
     (world (Inr 7) (Inl (FileNotFoundError ''curl''))
        (Inl (CalledProcessError 4 [''wget'', ''--quiet'', ''-O-'', ''https://cxc.harvard.edu/''])))
     ''https://cxc.harvard.edu/'' [] =
   (Inl (CalledProcessError 4 [''wget'', ''--quiet'', ''-O-'', ''https://cxc.harvard.edu/'']),
    [V3 ''Fall back to curl or wget to download: {}'' [A_str ''https://cxc.harvard.edu/''],
     V4 ''About to execute: {}'' [A_args [''curl'', ''--silent'', ''-L'', ''https://cxc.harvard.edu/'']],
     Check_output [''curl'', ''--silent'', ''-L'', ''https://cxc.harvard.edu/''],
     V3 ''Unable to call curl: {}'' [A_exn (FileNotFoundError ''curl'')],
     V4 ''About to execute: {}'' [A_args [''wget'', ''--quiet'', ''-O-'', ''https://cxc.harvard.edu/'']],
     Check_output [''wget'', ''--quiet'', ''-O-'', ''https://cxc.harvard.edu/'']])"
proof -
  let ?url = "''https://cxc.harvard.edu/''"
  let ?e1 = "CalledProcessError 6 [''curl'', ''--silent'', ''-L'', ?url]"
  let ?e2 = "CalledProcessError 4 [''wget'', ''--quiet'', ''-O-'', ?url]"
  let ?env1 = "world (Inr 7) (Inl ?e1) (Inr [111, 107])"
  let ?env2 = "world (Inr 7) (Inl (FileNotFoundError ''curl'')) (Inl ?e2)"
  have a: "check_output ?env1 [''curl'', ''--silent'', ''-L'', ?url] = Inl ?e1 \<and>
           \<not> is_FileNotFoundError ?e1"
    by (simp add: world_def)
  have b: "check_output ?env2 [''curl'', ''--silent'', ''-L'', ?url] =
             Inl (FileNotFoundError ''curl'') \<and>
           is_FileNotFoundError (FileNotFoundError ''curl'') \<and>
           check_output ?env2 [''wget'', ''--quiet'', ''-O-'', ?url] = Inl ?e2 \<and>
           \<not> is_FileNotFoundError ?e2"
    by (simp add: world_def)
  from a manual_download_propagates_failure [of ?env1 ?url ?e1 "[]"]
  have first: "manual_download ?env1 ?url [] =
      (Inl ?e1,
       [] @ [V3 ''Fall back to curl or wget to download: {}'' [A_str ?url],
             V4 ''About to execute: {}'' [A_args [''curl'', ''--silent'', ''-L'', ?url]],
             Check_output [''curl'', ''--silent'', ''-L'', ?url]])"
    by blast
  from b manual_download_propagates_failure [of ?env2 ?url ?e2 "[]" "FileNotFoundError ''curl''"]
  have second: "manual_download ?env2 ?url [] =
      (Inl ?e2,
       [] @ [V3 ''Fall back to curl or wget to download: {}'' [A_str ?url],
             V4 ''About to execute: {}'' [A_args [''curl'', ''--silent'', ''-L'', ?url]],
             Check_output [''curl'', ''--silent'', ''-L'', ?url],
             V3 ''Unable to call curl: {}'' [A_exn (FileNotFoundError ''curl'')],
             V4 ''About to execute: {}'' [A_args [''wget'', ''--quiet'', ''-O-'', ?url]],
             Check_output [''wget'', ''--quiet'', ''-O-'', ?url]])"
    by blast
  from first second show ?thesis by simp
qed

text \<open>
  C5 as first stated, for every program that is found and fails, does not hold. A \<^verbatim>\<open>curl\<close>
  that is on the path but cannot be started, its interpreter or loader being absent, makes
  \<^verbatim>\<open>check_output\<close> raise \<^verbatim>\<open>FileNotFoundError\<close> as well. That failure does not reach the
  caller: \<^verbatim>\<open>manual_download\<close> logs it, runs \<^verbatim>\<open>wget\<close> and returns what \<^verbatim>\<open>wget\<close> wrote.
\<close>

theorem manual_download_found_program_counterexample:
  "manual_download
     (world (Inr 7)
        (Inl (FileNotFoundError ''[Errno 2] No such file or directory: /usr/local/bin/curl''))
        (Inr [111, 107]))
     ''https://cxc.harvard.edu/'' [] =
   (Inr (BytesIO [111, 107]),
    [V3 ''Fall back to curl or wget to download: {}'' [A_str ''https://cxc.harvard.edu/''],
     V4 ''About to execute: {}'' [A_args [''curl'', ''--silent'', ''-L'', ''https://cxc.harvard.edu/'']],
     Check_output [''curl'', ''--silent'', ''-L'', ''https://cxc.harvard.edu/''],
     V3 ''Unable to call curl: {}''
       [A_exn (FileNotFoundError ''[Errno 2] No such file or directory: /usr/local/bin/curl'')],
     V4 ''About to execute: {}'' [A_args [''wget'', ''--quiet'', ''-O-'', ''https://cxc.harvard.edu/'']],
     Check_output [''wget'', ''--quiet'', ''-O-'', ''https://cxc.harvard.edu/'']]) \<and>
   fst (manual_download
          (world (Inr 7)
             (Inl (FileNotFoundError ''[Errno 2] No such file or directory: /usr/local/bin/curl''))
             (Inr [111, 107]))
          ''https://cxc.harvard.edu/'' []) \<noteq>
     Inl (FileNotFoundError ''[Errno 2] No such file or directory: /usr/local/bin/curl'')"
  by (simp add: run_defs Let_def world_def)

subsection \<open>The native fetch and its timeout\<close>

lemma one_Urlopen_event:
  "filter is_Urlopen (snd (retrieve_url env url timeout tr)) =
     filter is_Urlopen tr @ [Urlopen url timeout]"
  by (cases timeout)
    (simp_all add: retrieve_url_def v3_def call_urlopen_def Let_def manual_download_no_Urlopen
      split: sum.splits option.splits)

text \<open>
  C6. A run of \<^verbatim>\<open>retrieve_url\<close> makes one \<^verbatim>\<open>urlopen\<close> call. With a timeout that is not
  \<^verbatim>\<open>None\<close> the call is \<^verbatim>\<open>urlopen(url, timeout=t)\<close> with that value; with the timeout
  \<^verbatim>\<open>None\<close> it is \<^verbatim>\<open>urlopen(url)\<close>, without a timeout argument.
\<close>

theorem retrieve_url_urlopen_timeout:
  "filter is_Urlopen (snd (retrieve_url env url (Some t) [])) = [Urlopen url (Some t)] \<and>
   filter is_Urlopen (snd (retrieve_url env url None [])) = [Urlopen url None]"
  by (simp add: one_Urlopen_event)

theorem retrieve_url_urlopen_timeout_witness:
  "filter is_Urlopen
     (snd (retrieve_url (world (Inr 7) (Inr [104, 105]) (Inr [104, 105]))
        ''http://cxc.harvard.edu/'' (Some 30) [])) =
     [Urlopen ''http://cxc.harvard.edu/'' (Some 30)] \<and>
   filter is_Urlopen
     (snd (retrieve_url (world (Inr 7) (Inr [104, 105]) (Inr [104, 105]))
        ''http://cxc.harvard.edu/'' None [])) =
     [Urlopen ''http://cxc.harvard.edu/'' None]"
  by (rule retrieve_url_urlopen_timeout)

text \<open>
  C8. When \<^verbatim>\<open>retrieve_url\<close> falls back, what it returns and every event after the handler's
  log lines are those of \<^verbatim>\<open>manual_download\<close> run on the url alone, from an empty trace: the
  timeout does not reach the manual path, whatever its value.
\<close>

theorem retrieve_url_fallback_url_only:
  assumes "urlopen env url timeout = Inl ue"
    and "URLError_reason ue = Some r"
    and "sublist ''unknown url type: https'' (str_reason r) \<or>
         sublist ''CERTIFICATE_VERIFY_FAILED'' (str_reason r)"
  shows "fst (retrieve_url env url timeout tr) = fst (manual_download env url []) \<and>
         snd (retrieve_url env url timeout tr) =
           tr @ handler_events url timeout ue r @ snd (manual_download env url [])"
proof -
  let ?tr = "tr @ handler_events url timeout ue r"
  have "retrieve_url env url timeout tr = manual_download env url ?tr"
    using assms by (rule handler_takes_fallback)
  also have "\<dots> = (fst (manual_download env url []), ?tr @ snd (manual_download env url []))"
    by (rule manual_download_trace)
  finally show ?thesis by simp
qed

theorem retrieve_url_fallback_url_only_witness:
  "fst (retrieve_url
          (world (Inl (URLError (Reason_obj ''SSLError''
                    ''[SSL: CERTIFICATE_VERIFY_FAILED] certificate verify failed (_ssl.c:719)'')))
             (Inr [104, 105]) (Inr [104, 105]))
          ''https://cxc.harvard.edu/'' (Some 10) []) =
   fst (manual_download
          (world (Inl (URLError (Reason_obj ''SSLError''
                    ''[SSL: CERTIFICATE_VERIFY_FAILED] certificate verify failed (_ssl.c:719)'')))
             (Inr [104, 105]) (Inr [104, 105]))
          ''https://cxc.harvard.edu/'' [])"
proof -
  let ?r = "Reason_obj ''SSLError''
              ''[SSL: CERTIFICATE_VERIFY_FAILED] certificate verify failed (_ssl.c:719)''"
  let ?env = "world (Inl (URLError ?r)) (Inr [104, 105]) (Inr [104, 105])"
  have h1: "urlopen ?env ''https://cxc.harvard.edu/'' (Some 10) = Inl (URLError ?r)"
    by (simp add: world_def)
  have h2: "URLError_reason (URLError ?r) = Some ?r"
    by simp
  have "sublist ''CERTIFICATE_VERIFY_FAILED'' (str_reason ?r)"
    using sublist_appendI [of "''CERTIFICATE_VERIFY_FAILED''" "''[SSL: ''"
        "''] certificate verify failed (_ssl.c:719)''"]
    by simp
  then have h3: "sublist ''unknown url type: https'' (str_reason ?r) \<or>
                 sublist ''CERTIFICATE_VERIFY_FAILED'' (str_reason ?r)"
    by (rule disjI2)
  show ?thesis
    using retrieve_url_fallback_url_only [OF h1 h2 h3, of "[]"] by (rule conjunct1)
qed

subsection \<open>What decides the fall back\<close>

lemma manual_download_adds_events: "snd (manual_download env url []) \<noteq> []"
  by (simp add: run_defs Let_def split: sum.splits)

lemma sublist_same_length: "sublist xs ys \<Longrightarrow> length ys = length xs \<Longrightarrow> ys = xs"
  by (auto simp: sublist_def)

lemma eq_ignoring_case_length: "eq_ignoring_case s t \<Longrightarrow> length s = length t"
  unfolding eq_ignoring_case_def by (rule map_eq_imp_length_eq)

lemma case_variant_no_trigger:
  assumes "eq_ignoring_case s ''unknown url type: https'' \<or>
           eq_ignoring_case s ''CERTIFICATE_VERIFY_FAILED''"
    and "s \<noteq> ''unknown url type: https''"
    and "s \<noteq> ''CERTIFICATE_VERIFY_FAILED''"
  shows "\<not> sublist ''unknown url type: https'' s \<and> \<not> sublist ''CERTIFICATE_VERIFY_FAILED'' s"
  using assms(1)
proof
  assume v: "eq_ignoring_case s ''unknown url type: https''"
  then have len: "length s = 23"
    using eq_ignoring_case_length by fastforce
  have "\<not> sublist ''unknown url type: https'' s"
    using sublist_same_length [of "''unknown url type: https''" s] len assms(2) by auto
  moreover have "\<not> sublist ''CERTIFICATE_VERIFY_FAILED'' s"
    using sublist_length_le [of "''CERTIFICATE_VERIFY_FAILED''" s] len by auto
  ultimately show ?thesis by simp
next
  assume v: "eq_ignoring_case s ''CERTIFICATE_VERIFY_FAILED''"
  then have len: "length s = 25"
    using eq_ignoring_case_length by fastforce
  have "\<not> sublist ''CERTIFICATE_VERIFY_FAILED'' s"
    using sublist_same_length [of "''CERTIFICATE_VERIFY_FAILED''" s] len assms(3) by auto
  moreover have "\<not> sublist ''unknown url type: https'' s"
  proof
    assume "sublist ''unknown url type: https'' s"
    then have "set ''unknown url type: https'' \<subseteq> set s"
      by (rule set_mono_sublist)
    then have "CHR '' '' \<in> set s"
      by auto
    then have "ascii_lower (CHR '' '') \<in> set (map ascii_lower s)"
      by simp
    moreover have "ascii_lower (CHR '' '') = CHR '' ''"
      by code_simp
    moreover have "map ascii_lower s = map ascii_lower ''CERTIFICATE_VERIFY_FAILED''"
      using v by (simp only: eq_ignoring_case_def)
    moreover have "CHR '' '' \<notin> set (map ascii_lower ''CERTIFICATE_VERIFY_FAILED'')"
      by code_simp
    ultimately show False
      by simp
  qed
  ultimately show ?thesis by simp
qed

text \<open>
  C9. Whether \<^verbatim>\<open>retrieve_url\<close> falls back is decided on \<^verbatim>\<open>str(ue.reason)\<close>, for a reason that
  is a string and for one that is an object alike: it falls back exactly when that text
  contains one of the two strings, character for character. A reason text that is one of
  the two strings with some letters in the other case does not make it fall back; the
  exception is raised again.
\<close>

theorem retrieve_url_fallback_decision:
  assumes "urlopen env url timeout = Inl ue"
    and "URLError_reason ue = Some r"
  shows "(retrieve_url env url timeout tr =
            manual_download env url (tr @ handler_events url timeout ue r)) =
           (sublist ''unknown url type: https'' (str_reason r) \<or>
            sublist ''CERTIFICATE_VERIFY_FAILED'' (str_reason r)) \<and>
         ((eq_ignoring_case (str_reason r) ''unknown url type: https'' \<or>
           eq_ignoring_case (str_reason r) ''CERTIFICATE_VERIFY_FAILED'') \<and>
          str_reason r \<noteq> ''unknown url type: https'' \<and>
          str_reason r \<noteq> ''CERTIFICATE_VERIFY_FAILED'' \<longrightarrow>
            retrieve_url env url timeout tr = (Inl ue, tr @ handler_events url timeout ue r))"
proof -
  let ?tr = "tr @ handler_events url timeout ue r"
  let ?trigger = "sublist ''unknown url type: https'' (str_reason r) \<or>
                  sublist ''CERTIFICATE_VERIFY_FAILED'' (str_reason r)"
  have yes: "retrieve_url env url timeout tr = manual_download env url ?tr" if "?trigger"
    using assms that by (rule handler_takes_fallback)
  have no: "retrieve_url env url timeout tr = (Inl ue, ?tr)" if "\<not> ?trigger"
    using handler_raises_again [OF assms, of tr] that by simp
  have "snd (manual_download env url ?tr) \<noteq> ?tr"
    using manual_download_trace [of env url ?tr] manual_download_adds_events [of env url]
    by simp
  then have differ: "manual_download env url ?tr \<noteq> (Inl ue, ?tr)"
    by auto
  have first: "(retrieve_url env url timeout tr = manual_download env url ?tr) = ?trigger"
    using yes no differ by (cases "?trigger") simp_all
  have second: "retrieve_url env url timeout tr = (Inl ue, ?tr)"
    if "eq_ignoring_case (str_reason r) ''unknown url type: https'' \<or>
        eq_ignoring_case (str_reason r) ''CERTIFICATE_VERIFY_FAILED''"
      and "str_reason r \<noteq> ''unknown url type: https''"
      and "str_reason r \<noteq> ''CERTIFICATE_VERIFY_FAILED''"
    using no case_variant_no_trigger [OF that] by blast
  from first second show ?thesis by blast
qed

theorem retrieve_url_fallback_decision_witness:
  "retrieve_url
     (world (Inl (URLError (Reason_obj ''SSLError'' ''certificate_verify_failed'')))
        (Inr [104, 105]) (Inr [104, 105]))
     ''https://cxc.harvard.edu/'' None [] =
   (Inl (URLError (Reason_obj ''SSLError'' ''certificate_verify_failed'')),
    [V3 ''Retrieving URL: {} timeout={}'' [A_str ''https://cxc.harvard.edu/'', A_timeout None],
     Urlopen ''https://cxc.harvard.edu/'' None,
     V3 ''Error opening URL: {}''
       [A_exn (URLError (Reason_obj ''SSLError'' ''certificate_verify_failed''))],
     V3 ''error.reason = {}'' [A_reason (Reason_obj ''SSLError'' ''certificate_verify_failed'')]])"
proof -
  let ?r = "Reason_obj ''SSLError'' ''certificate_verify_failed''"
  let ?env = "world (Inl (URLError ?r)) (Inr [104, 105]) (Inr [104, 105])"
  have h1: "urlopen ?env ''https://cxc.harvard.edu/'' None = Inl (URLError ?r)"
    by (simp add: world_def)
  have h2: "URLError_reason (URLError ?r) = Some ?r"
    by simp
  have "eq_ignoring_case ''certificate_verify_failed'' ''CERTIFICATE_VERIFY_FAILED''"
    by code_simp
  then have h3: "(eq_ignoring_case (str_reason ?r) ''unknown url type: https'' \<or>
                  eq_ignoring_case (str_reason ?r) ''CERTIFICATE_VERIFY_FAILED'') \<and>
                 str_reason ?r \<noteq> ''unknown url type: https'' \<and>
                 str_reason ?r \<noteq> ''CERTIFICATE_VERIFY_FAILED''"
    by simp
  from retrieve_url_fallback_decision [OF h1 h2, of "[]"] h3
  have "retrieve_url ?env ''https://cxc.harvard.edu/'' None [] =
          (Inl (URLError ?r),
           [] @ handler_events ''https://cxc.harvard.edu/'' None (URLError ?r) ?r)"
    by blast
  then show ?thesis by (simp add: handler_events_def)
qed

text \<open>
  C10. An exception of \<^verbatim>\<open>urlopen\<close> that is not a \<^verbatim>\<open>URLError\<close> is not caught: it leaves
  \<^verbatim>\<open>retrieve_url\<close> as it is, right after the \<^verbatim>\<open>urlopen\<close> call, whatever its message, and no
  external program is run.
\<close>

theorem retrieve_url_catches_URLError_only:
  assumes "urlopen env url timeout = Inl e"
    and "URLError_reason e = None"
  shows "retrieve_url env url timeout tr =
           (Inl e,
            tr @ [V3 ''Retrieving URL: {} timeout={}'' [A_str url, A_timeout timeout],
                  Urlopen url timeout]) \<and>
         filter is_Check_output (snd (retrieve_url env url timeout tr)) =
           filter is_Check_output tr"
  using exception_not_caught [OF assms, of tr] by simp

theorem retrieve_url_catches_URLError_only_witness:
  "retrieve_url
     (world (Inl (ValueError ''unknown url type: https'')) (Inr [104, 105]) (Inr [104, 105]))
     ''https://cxc.harvard.edu/'' None [] =
   (Inl (ValueError ''unknown url type: https''),
    [V3 ''Retrieving URL: {} timeout={}'' [A_str ''https://cxc.harvard.edu/'', A_timeout None],
     Urlopen ''https://cxc.harvard.edu/'' None])"
proof -
  let ?e = "ValueError ''unknown url type: https''"
  let ?env = "world (Inl ?e) (Inr [104, 105]) (Inr [104, 105])"
  have h1: "urlopen ?env ''https://cxc.harvard.edu/'' None = Inl ?e"
    by (simp add: world_def)
  have h2: "URLError_reason ?e = None"
    by simp
  show ?thesis
    using retrieve_url_catches_URLError_only [OF h1 h2, of "[]"] by simp
qed

subsection \<open>What is returned\<close>

text \<open>
  C7. On the native path the code does not hold the claim: \<^verbatim>\<open>retrieve_url\<close> hands over the
  object \<^verbatim>\<open>urlopen\<close> returned, as it is and unread, where the docstring announces a
  \<^verbatim>\<open>StringIO\<close> instance and \<^verbatim>\<open>manual_download\<close> builds a \<^verbatim>\<open>BytesIO\<close> of the whole output. Here
  \<^verbatim>\<open>urlopen\<close> succeeds for \<^verbatim>\<open>http://cxc.harvard.edu/\<close> with the connection handle 7.
\<close>

theorem retrieve_url_native_response_unread:
  "retrieve_url (world (Inr 7) (Inr [104, 105]) (Inr [104, 105]))
     ''http://cxc.harvard.edu/'' None [] =
     (Inr (HTTPResponse 7),
      [V3 ''Retrieving URL: {} timeout={}'' [A_str ''http://cxc.harvard.edu/'', A_timeout None],
       Urlopen ''http://cxc.harvard.edu/'' None]) \<and>
   \<not> is_BytesIO (HTTPResponse 7)"
  by (simp add: retrieve_url_def v3_def call_urlopen_def world_def)

theorem retrieve_url_native_response_unread_witness:
  "fst (retrieve_url (world (Inr 7) (Inr [104, 105]) (Inr [104, 105]))
          ''http://cxc.harvard.edu/'' None []) = Inr (HTTPResponse 7)"
  using retrieve_url_native_response_unread by simp

end
